theory Spec2Isabelle
  imports Complex_Main
begin

section \<open>Array operations used by the rocket notebook\<close>

text \<open>
  The notebooks build constraints from one-dimensional arrays. A decision variable is a
  column of unknowns; an assignment gives it a list of reals. A number such as \<open>g\<close> is the
  one-element array, which the elementwise operators stretch to the other operand's
  length. Floats are read as the reals they denote.
\<close>

datatype error = ShapeError | IndexError

type_synonym arr = "real list"

text \<open>Broadcasting of two operands: equal lengths pair up, a one-element operand is
  repeated, anything else is a shape error.\<close>

definition pairs :: "arr \<Rightarrow> arr \<Rightarrow> error + (real \<times> real) list" where
  "pairs xs ys =
     (if length xs = length ys then Inr (zip xs ys)
      else if length xs = 1 then Inr (map (\<lambda>y. (hd xs, y)) ys)
      else if length ys = 1 then Inr (map (\<lambda>x. (x, hd ys)) xs)
      else Inl ShapeError)"

text \<open>An elementwise binary operator (\<open>*\<close>, \<open>/\<close>, \<open>-\<close>) on two expressions, each of which
  may already have failed.\<close>

definition ew :: "(real \<Rightarrow> real \<Rightarrow> real) \<Rightarrow> error + arr \<Rightarrow> error + arr \<Rightarrow> error + arr" where
  "ew f a b =
     (case a of Inl e \<Rightarrow> Inl e
      | Inr xs \<Rightarrow>
         (case b of Inl e \<Rightarrow> Inl e
          | Inr ys \<Rightarrow>
             (case pairs xs ys of Inl e \<Rightarrow> Inl e
              | Inr ps \<Rightarrow> Inr (map (\<lambda>(x, y). f x y) ps))))"

text \<open>\<open>np.diff(a)\<close>: the differences of neighbours, \<open>a[1:] - a[:-1]\<close>.\<close>

definition np_diff :: "error + arr \<Rightarrow> error + arr" where
  "np_diff a = (case a of Inl e \<Rightarrow> Inl e | Inr xs \<Rightarrow> Inr (map2 (-) (tl xs) (butlast xs)))"

text \<open>The slice \<open>a[:-1]\<close>: all but the last element; a slice never raises.\<close>

definition slice_butlast :: "error + arr \<Rightarrow> error + arr" where
  "slice_butlast a = (case a of Inl e \<Rightarrow> Inl e | Inr xs \<Rightarrow> Inr (butlast xs))"

text \<open>The index \<open>a[i]\<close>: a negative index counts from the end, an index out of range
  raises \<open>IndexError\<close>.\<close>

definition index :: "error + arr \<Rightarrow> int \<Rightarrow> error + arr" where
  "index a i =
     (case a of Inl e \<Rightarrow> Inl e
      | Inr xs \<Rightarrow>
         (if 0 \<le> i \<and> i < int (length xs) then Inr [xs ! nat i]
          else if i < 0 \<and> - int (length xs) \<le> i then Inr [xs ! nat (int (length xs) + i)]
          else Inl IndexError))"

text \<open>\<open>np.linspace(start, stop, n)\<close>: \<open>n\<close> evenly spaced samples from \<open>start\<close> to \<open>stop\<close>.\<close>

definition linspace :: "real \<Rightarrow> real \<Rightarrow> nat \<Rightarrow> arr" where
  "linspace start stop n = map (\<lambda>i. start + real i * ((stop - start) / real (n - 1))) [0..<n]"

text \<open>A constraint \<open>a == b\<close> or \<open>a >= b\<close> holds under an assignment when both sides
  evaluate, their shapes broadcast, and the relation holds at every position.\<close>

definition holds :: "(real \<Rightarrow> real \<Rightarrow> bool) \<Rightarrow> error + arr \<Rightarrow> error + arr \<Rightarrow> bool" where
  "holds r a b =
     (case a of Inl e \<Rightarrow> False
      | Inr xs \<Rightarrow>
         (case b of Inl e \<Rightarrow> False
          | Inr ys \<Rightarrow>
             (case pairs xs ys of Inl e \<Rightarrow> False
              | Inr ps \<Rightarrow> list_all (\<lambda>(x, y). r x y) ps)))"

text \<open>The length of an expression's value, when it has one.\<close>

definition shape :: "error + arr \<Rightarrow> nat option" where
  "shape a = (case a of Inl e \<Rightarrow> None | Inr xs \<Rightarrow> Some (length xs))"

section \<open>The rocket problem (1D Rocket Problem with Manual Dynamics)\<close>

subsection \<open>Time discretization and constants (first code cell)\<close>

definition N :: nat where
  "N = 100"

definition time_final :: real where
  "time_final = 100"

definition time :: arr where
  "time = linspace 0 time_final N"

definition mass_initial :: real where
  "mass_initial = 500000"

definition y_final :: real where
  "y_final = 100000"

definition g :: real where
  "g = 981 / 100"

definition alpha :: real where
  "alpha = 1 / (300 * g)"

subsection \<open>Decision variables\<close>

text \<open>
  Modelled from the spec: \<open>Opti.variable\<close> of the optimization library
  (\<open>aerosandbox/optimization/opti.py\<close>) is not among the source files. The spec describes a
  decision variable as a scalar or vector unknown introduced with an initial guess; the
  notebook passes either an array guess alone or a number with \<open>n_vars\<close>. The number of
  unknowns is \<open>n_vars\<close> when it is passed and the length of the initial guess otherwise.
\<close>

definition variable :: "arr \<Rightarrow> nat option \<Rightarrow> nat" where
  "variable init_guess n_vars = (case n_vars of Some n \<Rightarrow> n | None \<Rightarrow> length init_guess)"

text \<open>The four declarations of the first code cell, as the lengths they give.\<close>

definition y_len :: nat where
  "y_len = variable (linspace 0 y_final N) None"

definition velocity_len :: nat where
  "velocity_len = variable [y_final / time_final] (Some N)"

definition mass_len :: nat where
  "mass_len = variable [mass_initial] (Some N)"

definition u_len :: nat where
  "u_len = variable [g * mass_initial] (Some N)"

subsection \<open>The forward-Euler dynamics constraints (second code cell)\<close>

text \<open>Each constraint is kept as its two sides, functions of the assignment.\<close>

definition dyn_y_lhs :: "arr \<Rightarrow> error + arr" where
  "dyn_y_lhs y = np_diff (Inr y)"

definition dyn_y_rhs :: "arr \<Rightarrow> error + arr" where
  "dyn_y_rhs velocity = ew (*) (slice_butlast (Inr velocity)) (np_diff (Inr time))"

definition dyn_velocity_lhs :: "arr \<Rightarrow> error + arr" where
  "dyn_velocity_lhs velocity = np_diff (Inr velocity)"

definition dyn_velocity_rhs :: "arr \<Rightarrow> arr \<Rightarrow> error + arr" where
  "dyn_velocity_rhs u mass =
     ew (*) (ew (-) (ew (/) (slice_butlast (Inr u)) (slice_butlast (Inr mass))) (Inr [g]))
        (np_diff (Inr time))"

definition dyn_mass_lhs :: "arr \<Rightarrow> error + arr" where
  "dyn_mass_lhs mass = np_diff (Inr mass)"

definition dyn_mass_rhs :: "arr \<Rightarrow> error + arr" where
  "dyn_mass_rhs u = ew (*) (ew (*) (Inr [- alpha]) (slice_butlast (Inr u))) (np_diff (Inr time))"

subsection \<open>Path constraint on the control (third code cell)\<close>

text \<open>\<open>u >= 0\<close>\<close>

definition path_u :: "arr \<Rightarrow> bool" where
  "path_u u = holds (\<ge>) (Inr u) (Inr [0])"

subsection \<open>A sample trajectory\<close>

text \<open>One assignment that satisfies the mass dynamics: constant thrust burning one
  kilogram per time step.\<close>

definition sample_u :: arr where
  "sample_u = replicate 100 (2943 * 99 / 100)"

definition sample_mass :: arr where
  "sample_mass = map (\<lambda>i. mass_initial - real i) [0..<100]"

definition sample_y :: arr where
  "sample_y = replicate 100 0"

definition sample_velocity :: arr where
  "sample_velocity = replicate 100 0"

section \<open>The constrained-gradient example (Constraining Gradients)\<close>

text \<open>\<open>def f(x): return x ** 4\<close>\<close>

definition f :: "real \<Rightarrow> real" where
  "f x = x ^ 4"

text \<open>The value printed by the third code cell, \<open>x_optimal = 0.6299605894866889\<close>.\<close>

definition x_optimal_recorded :: real where
  "x_optimal_recorded = 6299605894866889 / 10 ^ 16"

text \<open>The expression of the fourth code cell, \<open>(1 / 4) ** (1 / 3)\<close>.\<close>

definition analytic_solution :: real where
  "analytic_solution = (1 / 4) powr (1 / 3)"

section \<open>The notebooks as scripts\<close>

text \<open>
  A code cell is a list of statements. A statement is kept with the named calls its
  expression makes, in evaluation order (the arguments of a call before the call itself);
  operators and subscripts are not listed. \<open>Try\<close> is Python's \<open>try: ... except: ...\<close>,
  which the language offers and a script may or may not use.
\<close>

datatype stmt =
    Import string string
  | Assign string "string list"
  | Expr "string list"
  | FunDef string "stmt list"
  | Return "string list"
  | Try "stmt list" "stmt list"

datatype cell = Markdown | Code "stmt list"

type_synonym notebook = "cell list"

definition rocket_notebook :: notebook where
  "rocket_notebook =
    [ Markdown,
      Code
        [ Import ''aerosandbox'' ''asb'',
          Import ''aerosandbox.numpy'' ''np'',
          Assign ''opti'' [''asb.Opti''],
          Assign ''N'' [],
          Assign ''time_final'' [],
          Assign ''time'' [''np.linspace''],
          Assign ''mass_initial'' [],
          Assign ''y_final'' [],
          Assign ''g'' [],
          Assign ''alpha'' [],
          Assign ''y'' [''np.linspace'', ''opti.variable''],
          Assign ''velocity'' [''opti.variable''],
          Assign ''mass'' [''opti.variable''],
          Assign ''u'' [''opti.variable''] ],
      Markdown,
      Code
        [ Expr [''np.diff'', ''np.diff'', ''np.diff'', ''np.diff'', ''np.diff'', ''np.diff'',
                ''opti.subject_to''] ],
      Markdown,
      Code
        [ Expr [''opti.subject_to''],
          Expr [''opti.subject_to''],
          Expr [''opti.minimize''],
          Assign ''sol'' [''opti.solve''],
          Expr [''sol.stats'', ''print''] ],
      Markdown,
      Code
        [ Expr [''opti.constrain_derivative''],
          Expr [''opti.constrain_derivative''],
          Expr [''opti.constrain_derivative''] ],
      Markdown ]"

definition constraining_gradients_notebook :: notebook where
  "constraining_gradients_notebook =
    [ Markdown,
      Code
        [ Import ''aerosandbox'' ''asb'',
          Import ''aerosandbox.numpy'' ''np'',
          Assign ''opti'' [''asb.Opti''],
          Assign ''x'' [''opti.variable''],
          FunDef ''f'' [Return []] ],
      Markdown,
      Code
        [ Import ''casadi'' ''cas'',
          Assign ''dummy'' [''cas.GenMX_sym''],
          Assign ''dfdx'' [''f'', ''cas.gradient'', ''cas.Function''] ],
      Markdown,
      Code
        [ Expr [''dfdx'', ''opti.subject_to''],
          Assign ''sol'' [''opti.solve''],
          Expr [''sol'', ''print''] ],
      Markdown,
      Code
        [ Expr [''print''] ],
      Markdown ]"

fun code_cells :: "notebook \<Rightarrow> stmt list list" where
  "code_cells [] = []"
| "code_cells (Markdown # cs) = code_cells cs"
| "code_cells (Code ss # cs) = ss # code_cells cs"

subsection \<open>The steps of a script\<close>

datatype step = ImportLibrary | DeclareVariable | StateConstraint | InvokeSolver
  | PrintResult | Auxiliary

text \<open>A statement is the step its outermost call performs. The library is the
  \<open>aerosandbox\<close> package; every other statement (constants, the context, the objective,
  helper definitions, the import of the differentiation engine) is auxiliary.\<close>

definition step_of_calls :: "string list \<Rightarrow> step" where
  "step_of_calls cs =
     (if cs = [] then Auxiliary
      else if last cs = ''opti.variable'' then DeclareVariable
      else if last cs = ''opti.subject_to'' \<or> last cs = ''opti.constrain_derivative''
        then StateConstraint
      else if last cs = ''opti.solve'' then InvokeSolver
      else if last cs = ''print'' then PrintResult
      else Auxiliary)"

fun step_of :: "stmt \<Rightarrow> step" where
  "step_of (Import m a) = (if take 11 m = ''aerosandbox'' then ImportLibrary else Auxiliary)"
| "step_of (Assign x cs) = step_of_calls cs"
| "step_of (Expr cs) = step_of_calls cs"
| "step_of (FunDef n body) = Auxiliary"
| "step_of (Return cs) = Auxiliary"
| "step_of (Try body handler) = Auxiliary"

definition script_steps :: "notebook \<Rightarrow> step list" where
  "script_steps nb = filter (\<lambda>s. s \<noteq> Auxiliary) (map step_of (concat (code_cells nb)))"

fun rank :: "step \<Rightarrow> nat" where
  "rank ImportLibrary = 0"
| "rank DeclareVariable = 1"
| "rank StateConstraint = 2"
| "rank InvokeSolver = 3"
| "rank PrintResult = 4"
| "rank Auxiliary = 5"

fun nondecreasing :: "nat list \<Rightarrow> bool" where
  "nondecreasing [] = True"
| "nondecreasing [a] = True"
| "nondecreasing (a # b # rest) = (a \<le> b \<and> nondecreasing (b # rest))"

text \<open>A linear script runs through the five steps in their order.\<close>

definition linear_script :: "notebook \<Rightarrow> bool" where
  "linear_script nb = nondecreasing (map rank (script_steps nb))"

fun constraint_after_solve :: "step list \<Rightarrow> bool" where
  "constraint_after_solve [] = False"
| "constraint_after_solve (s # ss) =
     ((s = InvokeSolver \<and> StateConstraint \<in> set ss) \<or> constraint_after_solve ss)"

subsection \<open>Running a cell\<close>

text \<open>
  The library is external: a behaviour says, for each callee, whether calling it raises
  and which exception. Running a block yields the calls that returned, in order, and how
  the block ended. An exception ends the block at once unless a \<open>Try\<close> around it catches
  it.
\<close>

type_synonym behaviour = "string \<Rightarrow> string option"

datatype outcome = Normal | Raised string

fun eval_calls :: "behaviour \<Rightarrow> string list \<Rightarrow> string list \<times> outcome" where
  "eval_calls b [] = ([], Normal)"
| "eval_calls b (c # cs) =
     (case b c of
        Some e \<Rightarrow> ([], Raised e)
      | None \<Rightarrow> (case eval_calls b cs of (t, r) \<Rightarrow> (c # t, r)))"

fun exec :: "behaviour \<Rightarrow> stmt \<Rightarrow> string list \<times> outcome"
  and exec_block :: "behaviour \<Rightarrow> stmt list \<Rightarrow> string list \<times> outcome" where
  "exec b (Import m a) = eval_calls b [''import '' @ m]"
| "exec b (Assign x cs) = eval_calls b cs"
| "exec b (Expr cs) = eval_calls b cs"
| "exec b (FunDef n body) = ([], Normal)"
| "exec b (Return cs) = eval_calls b cs"
| "exec b (Try body handler) =
     (case exec_block b body of
        (t, Normal) \<Rightarrow> (t, Normal)
      | (t, Raised e) \<Rightarrow> (case exec_block b handler of (t', r) \<Rightarrow> (t @ t', r)))"
| "exec_block b [] = ([], Normal)"
| "exec_block b (s # ss) =
     (case exec b s of
        (t, Normal) \<Rightarrow> (case exec_block b ss of (t', r) \<Rightarrow> (t @ t', r))
      | (t, Raised e) \<Rightarrow> (t, Raised e))"

text \<open>The calls a block makes when nothing raises, and whether it contains a handler.\<close>

fun calls_of :: "stmt \<Rightarrow> string list" where
  "calls_of (Import m a) = [''import '' @ m]"
| "calls_of (Assign x cs) = cs"
| "calls_of (Expr cs) = cs"
| "calls_of (FunDef n body) = []"
| "calls_of (Return cs) = cs"
| "calls_of (Try body handler) = concat (map calls_of body)"

fun has_try :: "stmt \<Rightarrow> bool" where
  "has_try (Try body handler) = True"
| "has_try (FunDef n body) = list_ex has_try body"
| "has_try s = False"

definition handles_exceptions :: "notebook \<Rightarrow> bool" where
  "handles_exceptions nb = list_ex has_try (concat (code_cells nb))"

fun first_raise :: "behaviour \<Rightarrow> string list \<Rightarrow> string option" where
  "first_raise b [] = None"
| "first_raise b (c # cs) = (case b c of Some e \<Rightarrow> Some e | None \<Rightarrow> first_raise b cs)"

text \<open>A library in which only the solver fails.\<close>

definition solver_fails :: behaviour where
  "solver_fails c = (if c = ''opti.solve'' then Some ''RuntimeError'' else None)"

section \<open>The CI workflow (run-pytest.yml)\<close>

text \<open>
  A step either uses an action or runs a script, kept as its command lines. The platform's
  step schema also has a condition (\<open>if:\<close>) and \<open>continue-on-error:\<close>; a step that does not
  write them has no condition and does not continue on error.
\<close>

record ci_step =
  step_name :: "string option"
  uses :: "string option"
  with_inputs :: "(string \<times> string) list"
  run :: "string list"
  if_cond :: "string option"
  continue_on_error :: bool

record job =
  runs_on :: string
  matrix_python_version :: "string list"
  steps :: "ci_step list"

record workflow =
  workflow_name :: string
  on_events :: "(string \<times> string list) list"
  jobs :: "(string \<times> job) list"

definition build :: job where
  "build =
    \<lparr> runs_on = ''ubuntu-latest'',
      matrix_python_version = [''3.9'', ''3.11'', ''3.12''],
      steps =
        [ \<lparr> step_name = None, uses = Some ''actions/checkout@v4'', with_inputs = [],
            run = [], if_cond = None, continue_on_error = False \<rparr>,
          \<lparr> step_name = Some ''Set up Python ${{ matrix.python-version }}'',
            uses = Some ''actions/setup-python@v5'',
            with_inputs = [(''python-version'', ''${{ matrix.python-version }}'')],
            run = [], if_cond = None, continue_on_error = False \<rparr>,
          \<lparr> step_name = Some ''Install dependencies'', uses = None, with_inputs = [],
            run =
              [ ''python -m pip cache purge'',
                ''python -m pip install --upgrade pip'',
                ''python -m pip install --upgrade setuptools'' ],
            if_cond = None, continue_on_error = False \<rparr>,
          \<lparr> step_name = Some ''Test with pytest (without extras; only package)'',
            uses = None, with_inputs = [],
            run =
              [ ''python -m pip install .[test]'',
                ''pytest aerosandbox'' ],
            if_cond = None, continue_on_error = False \<rparr>,
          \<lparr> step_name = Some ''Test with pytest (with extras; only tutorials)'',
            uses = None, with_inputs = [],
            run =
              [ ''python -m pip install .[full,test]'',
                ''py.test tutorial --nbval-lax --nbval-cell-timeout 120'' ],
            if_cond = None, continue_on_error = False \<rparr> ] \<rparr>"

definition run_pytest :: workflow where
  "run_pytest =
    \<lparr> workflow_name = ''Tests'',
      on_events = [(''push'', [''**'']), (''pull_request'', [''**''])],
      jobs = [(''build'', build)] \<rparr>"

subsection \<open>Reading the command lines\<close>

text \<open>The words of a command line, split at spaces.\<close>

fun words_from :: "string \<Rightarrow> string \<Rightarrow> string list" where
  "words_from w [] = (if w = [] then [] else [rev w])"
| "words_from w (c # cs) =
     (if c = CHR '' '' then (if w = [] then words_from [] cs else rev w # words_from [] cs)
      else words_from (c # w) cs)"

definition argv :: "string \<Rightarrow> string list" where
  "argv cmd = words_from [] cmd"

datatype command_kind = Install | InstallPackage | Test | OtherCommand

text \<open>A test invocation starts the test runner; an installation is \<open>python -m pip install\<close>,
  and it installs the package itself when it names the working directory (\<open>.\<close> with
  extras).\<close>

definition command_kind :: "string \<Rightarrow> command_kind" where
  "command_kind cmd =
     (let ws = argv cmd in
      if take 1 ws = [''pytest''] \<or> take 1 ws = [''py.test''] then Test
      else if take 4 ws = [''python'', ''-m'', ''pip'', ''install''] then
        (if list_ex (\<lambda>a. take 1 a = ''.'') (drop 4 ws) then InstallPackage else Install)
      else OtherCommand)"

definition job_commands :: "job \<Rightarrow> string list" where
  "job_commands j = concat (map run (steps j))"

definition test_invocations :: "job \<Rightarrow> string list list" where
  "test_invocations j = map argv (filter (\<lambda>c. command_kind c = Test) (job_commands j))"

text \<open>Every test invocation comes after an installation of the package.\<close>

fun install_then_test :: "bool \<Rightarrow> command_kind list \<Rightarrow> bool" where
  "install_then_test installed [] = True"
| "install_then_test installed (k # ks) =
     (if k = Test then installed \<and> install_then_test installed ks
      else install_then_test (installed \<or> k = InstallPackage) ks)"

text \<open>The value that follows an option on a command line.\<close>

fun option_value :: "string \<Rightarrow> string list \<Rightarrow> string option" where
  "option_value opt [] = None"
| "option_value opt [a] = None"
| "option_value opt (a # v # rest) = (if a = opt then Some v else option_value opt (v # rest))"

subsection \<open>Running a job\<close>

text \<open>
  The platform runs the steps in order. A script runs under the default shell, which stops
  at the first command that exits non-zero and exits with that status. A step without a
  condition runs only while no earlier step has failed; a step with a condition runs when
  the condition, evaluated by the platform, says so. A step that exits non-zero fails the
  job unless it continues on error. The exit status of each action and command is given
  from outside.
\<close>

datatype conclusion = Success | Failure

fun script_exit :: "(string \<Rightarrow> int) \<Rightarrow> string list \<Rightarrow> int" where
  "script_exit ex [] = 0"
| "script_exit ex (c # cs) = (if ex c \<noteq> 0 then ex c else script_exit ex cs)"

definition step_exit :: "(string \<Rightarrow> int) \<Rightarrow> ci_step \<Rightarrow> int" where
  "step_exit ex s = (case uses s of Some a \<Rightarrow> ex a | None \<Rightarrow> script_exit ex (run s))"

fun run_steps :: "(string \<Rightarrow> bool \<Rightarrow> bool) \<Rightarrow> (string \<Rightarrow> int) \<Rightarrow> bool \<Rightarrow> ci_step list \<Rightarrow> bool" where
  "run_steps ev ex failed [] = failed"
| "run_steps ev ex failed (s # ss) =
     (let runs = (case if_cond s of None \<Rightarrow> \<not> failed | Some c \<Rightarrow> ev c failed) in
      if runs \<and> step_exit ex s \<noteq> 0 \<and> \<not> continue_on_error s
      then run_steps ev ex True ss
      else run_steps ev ex failed ss)"

definition run_job :: "(string \<Rightarrow> bool \<Rightarrow> bool) \<Rightarrow> (string \<Rightarrow> int) \<Rightarrow> job \<Rightarrow> conclusion" where
  "run_job ev ex j = (if run_steps ev ex False (steps j) then Failure else Success)"

text \<open>The actions and commands of a step and of a job, and the steps that carry failure
  handling of their own.\<close>

definition step_units :: "ci_step \<Rightarrow> string list" where
  "step_units s = (case uses s of Some a \<Rightarrow> [a] | None \<Rightarrow> run s)"

definition job_units :: "job \<Rightarrow> string list" where
  "job_units j = concat (map step_units (steps j))"

definition handled_steps :: "job \<Rightarrow> ci_step list" where
  "handled_steps j = filter (\<lambda>s. if_cond s \<noteq> None \<or> continue_on_error s) (steps j)"

text \<open>The words of a script that would chain or guard commands inside the shell.\<close>

definition shell_operators :: "job \<Rightarrow> string list" where
  "shell_operators j =
     filter (\<lambda>w. w = ''||'' \<or> w = ''&&'' \<or> w = '';'' \<or> w = ''set'' \<or> w = ''if'' \<or> w = ''until'')
       (concat (map argv (job_commands j)))"

text \<open>A run in which only the library's test suite fails, on a platform whose conditions
  always let a step run.\<close>

definition library_tests_fail :: "string \<Rightarrow> int" where
  "library_tests_fail c = (if c = ''pytest aerosandbox'' then 1 else 0)"

definition always_run :: "string \<Rightarrow> bool \<Rightarrow> bool" where
  "always_run c failed = True"

section \<open>Properties of the rocket problem\<close>

subsection \<open>Lengths and elementwise operations\<close>

lemma length_linspace: "length (linspace a b n) = n"
  by (simp add: linspace_def)

lemma length_time: "length time = 100"
  by (simp add: time_def N_def length_linspace)

lemma var_lens: "y_len = 100" "velocity_len = 100" "mass_len = 100" "u_len = 100"
  by (simp_all add: y_len_def velocity_len_def mass_len_def u_len_def variable_def
      length_linspace N_def)

lemma pairs_same: "length xs = length ys \<Longrightarrow> pairs xs ys = Inr (zip xs ys)"
  by (simp add: pairs_def)

lemma pairs_left1: "length ys \<noteq> 1 \<Longrightarrow> pairs [a] ys = Inr (map (\<lambda>y. (a, y)) ys)"
  by (auto simp add: pairs_def)

lemma pairs_right1: "length xs \<noteq> 1 \<Longrightarrow> pairs xs [b] = Inr (map (\<lambda>x. (x, b)) xs)"
  by (auto simp add: pairs_def)

lemma np_diff_Inr: "np_diff (Inr xs) = Inr (map2 (-) (tl xs) (butlast xs))"
  by (simp add: np_diff_def)

lemma nth_diff:
  "Suc i < length xs \<Longrightarrow> map2 (-) (tl xs) (butlast xs) ! i = xs ! Suc i - xs ! i"
  by (simp add: nth_tl nth_butlast)

lemma ew_same:
  "length xs = length ys \<Longrightarrow> ew h (Inr xs) (Inr ys) = Inr (map (\<lambda>(x, y). h x y) (zip xs ys))"
  by (simp add: ew_def pairs_same)

lemma ew_left1:
  "length ys \<noteq> 1 \<Longrightarrow> ew h (Inr [a]) (Inr ys) = Inr (map (h a) ys)"
  by (simp add: ew_def pairs_left1 comp_def)

lemma ew_right1:
  "length xs \<noteq> 1 \<Longrightarrow> ew h (Inr xs) (Inr [b]) = Inr (map (\<lambda>x. h x b) xs)"
  by (simp add: ew_def pairs_right1 comp_def)

lemma holds_same:
  "length xs = length ys \<Longrightarrow>
   holds r (Inr xs) (Inr ys) \<longleftrightarrow> (\<forall>i<length xs. r (xs ! i) (ys ! i))"
  by (simp add: holds_def pairs_same list_all_length)

lemma holds_right1:
  "length xs \<noteq> 1 \<Longrightarrow> holds r (Inr xs) (Inr [b]) \<longleftrightarrow> (\<forall>i<length xs. r (xs ! i) b)"
  by (simp add: holds_def pairs_right1 list_all_length)

subsection \<open>The time grid\<close>

lemma time_nth: "i < 100 \<Longrightarrow> time ! i = real i * (100 / 99)"
  by (simp add: time_def N_def linspace_def time_final_def)

text \<open>Every element of \<open>np.diff(time)\<close> is the same positive step.\<close>

lemma diff_time_nth:
  assumes "i < 99"
  shows "map2 (-) (tl time) (butlast time) ! i = 100 / 99"
proof -
  have "map2 (-) (tl time) (butlast time) ! i = time ! Suc i - time ! i"
    using assms by (intro nth_diff) (simp add: length_time)
  also have "\<dots> = real (Suc i) * (100 / 99) - real i * (100 / 99)"
    using assms by (simp add: time_nth)
  also have "\<dots> = 100 / 99" by (simp add: algebra_simps)
  finally show ?thesis .
qed

lemma alpha_pos: "0 < alpha"
  by (simp add: alpha_def g_def)

lemma dyn_mass_rhs_eq:
  assumes "length u = 100"
  shows "dyn_mass_rhs u =
    Inr (map (\<lambda>(x, y). x * y)
      (zip (map ((*) (- alpha)) (butlast u)) (map2 (-) (tl time) (butlast time))))"
  using assms
  by (simp add: dyn_mass_rhs_def slice_butlast_def np_diff_Inr ew_left1 ew_same length_time)

subsection \<open>The sample trajectory\<close>

lemma sample_lengths:
  "length sample_y = 100" "length sample_velocity = 100"
  "length sample_mass = 100" "length sample_u = 100"
  by (simp_all add: sample_y_def sample_velocity_def sample_mass_def sample_u_def)

lemma sample_dynamics: "holds (=) (dyn_mass_lhs sample_mass) (dyn_mass_rhs sample_u)"
proof -
  let ?dt = "map2 (-) (tl time) (butlast time)"
  let ?rhs = "map (\<lambda>(x, y). x * y) (zip (map ((*) (- alpha)) (butlast sample_u)) ?dt)"
  let ?lhs = "map2 (-) (tl sample_mass) (butlast sample_mass)"
  have len: "length ?lhs = length ?rhs"
    by (simp add: sample_lengths length_time)
  have "?lhs ! j = ?rhs ! j" if "j < 99" for j
  proof -
    have "?lhs ! j = sample_mass ! Suc j - sample_mass ! j"
      using that by (intro nth_diff) (simp add: sample_lengths)
    also have "\<dots> = - 1"
      using that by (simp add: sample_mass_def)
    finally have l: "?lhs ! j = - 1" .
    have "?rhs ! j = (- alpha * sample_u ! j) * (100 / 99)"
      using that diff_time_nth[of j] by (simp add: sample_lengths length_time nth_butlast)
    also have "\<dots> = - 1"
      using that by (simp add: sample_u_def alpha_def g_def)
    finally show ?thesis using l by simp
  qed
  then have "\<forall>j<length ?lhs. ?lhs ! j = ?rhs ! j"
    by (simp add: sample_lengths)
  then have "holds (=) (Inr ?lhs) (Inr ?rhs)"
    by (simp only: holds_same[OF len])
  then show ?thesis
    by (simp add: dyn_mass_lhs_def np_diff_Inr dyn_mass_rhs_eq[OF sample_lengths(4)])
qed

lemma sample_path: "path_u sample_u"
  by (simp add: path_u_def holds_right1 sample_lengths) (simp add: sample_u_def)

subsection \<open>Mass never increases\<close>

text \<open>
  C5. In the rocket problem's constraint system mass is non-increasing along the
  trajectory: for decision variables \<open>mass\<close> and \<open>u\<close> of the declared length, every
  assignment that satisfies the dynamics constraint
  \<open>np.diff(mass) == (-alpha * u[:-1]) * np.diff(time)\<close> and the path constraint \<open>u >= 0\<close>
  has \<open>mass[i + 1] <= mass[i]\<close> for every index \<open>0 <= i <= 98\<close>.
\<close>

theorem mass_nonincreasing:
  assumes lm: "length mass = mass_len" and lu: "length u = u_len"
    and dyn: "holds (=) (dyn_mass_lhs mass) (dyn_mass_rhs u)"
    and path: "path_u u"
    and i: "i \<le> 98"
  shows "mass ! (i + 1) \<le> mass ! i"
proof -
  have lm': "length mass = 100" and lu': "length u = 100"
    using lm lu by (simp_all add: var_lens)
  let ?dt = "map2 (-) (tl time) (butlast time)"
  let ?rhs = "map (\<lambda>(x, y). x * y) (zip (map ((*) (- alpha)) (butlast u)) ?dt)"
  let ?lhs = "map2 (-) (tl mass) (butlast mass)"
  have len: "length ?lhs = length ?rhs" "length ?lhs = 99"
    using lm' lu' by (simp_all add: length_time)
  have "holds (=) (Inr ?lhs) (Inr ?rhs)"
    using dyn by (simp add: dyn_mass_lhs_def np_diff_Inr dyn_mass_rhs_eq[OF lu'])
  then have "\<forall>j<length ?lhs. ?lhs ! j = ?rhs ! j"
    by (simp only: holds_same[OF len(1)])
  then have eq: "?lhs ! i = ?rhs ! i"
    using i len(2) by simp
  have l: "?lhs ! i = mass ! Suc i - mass ! i"
    using i lm' by (intro nth_diff) simp
  have r: "?rhs ! i = (- alpha * u ! i) * (100 / 99)"
    using i lu' diff_time_nth[of i] by (simp add: length_time nth_butlast)
  have "\<forall>j<length u. u ! j \<ge> 0"
    using path lu' by (simp add: path_u_def holds_right1)
  then have "0 \<le> u ! i" using i lu' by simp
  then have "(- alpha * u ! i) * (100 / 99) \<le> 0"
    using alpha_pos by (simp add: mult_nonneg_nonneg)
  with eq l r show ?thesis by simp
qed

theorem mass_nonincreasing_witness:
  "length sample_mass = mass_len \<and> length sample_u = u_len \<and>
   holds (=) (dyn_mass_lhs sample_mass) (dyn_mass_rhs sample_u) \<and> path_u sample_u \<and>
   sample_mass ! 1 = 499999 \<and> sample_mass ! 0 = 500000 \<and>
   sample_mass ! (0 + 1) \<le> sample_mass ! 0"
proof -
  have a: "length sample_mass = mass_len" "length sample_u = u_len"
    by (simp_all add: sample_lengths var_lens)
  have b: "(0::nat) \<le> 98" by simp
  have c: "sample_mass ! 1 = 499999" "sample_mass ! 0 = 500000"
    by (simp_all add: sample_mass_def mass_initial_def)
  from mass_nonincreasing[OF a sample_dynamics sample_path b] a sample_dynamics sample_path c
  show ?thesis by blast
qed

subsection \<open>Shapes of the dynamics constraints\<close>

text \<open>
  C9. In the rocket notebook the four decision variables \<open>y\<close>, \<open>velocity\<close>, \<open>mass\<close> and \<open>u\<close>
  are vectors of the same length \<open>N = 100\<close> (the length of \<open>y\<close> comes from its
  \<open>np.linspace\<close> initial guess, the other three from \<open>n_vars=N\<close>), and each of the three
  forward-Euler constraints equates two vectors of length \<open>N - 1 = 99\<close>: no elementwise
  operation meets a shape error, and the indices \<open>[0]\<close> and \<open>[-1]\<close> of the boundary
  conditions and the objective are in range.
\<close>

theorem dynamics_shapes:
  assumes "length y = y_len" "length velocity = velocity_len"
    "length mass = mass_len" "length u = u_len"
  shows "length y = 100 \<and> length velocity = 100 \<and> length mass = 100 \<and> length u = 100 \<and>
    shape (dyn_y_lhs y) = Some 99 \<and> shape (dyn_y_rhs velocity) = Some 99 \<and>
    shape (dyn_velocity_lhs velocity) = Some 99 \<and> shape (dyn_velocity_rhs u mass) = Some 99 \<and>
    shape (dyn_mass_lhs mass) = Some 99 \<and> shape (dyn_mass_rhs u) = Some 99 \<and>
    shape (index (Inr y) 0) = Some 1 \<and> shape (index (Inr velocity) 0) = Some 1 \<and>
    shape (index (Inr mass) 0) = Some 1 \<and> shape (index (Inr y) (- 1)) = Some 1 \<and>
    shape (index (Inr mass) (- 1)) = Some 1"
  using assms
  by (simp add: var_lens shape_def dyn_y_lhs_def dyn_y_rhs_def dyn_velocity_lhs_def
      dyn_velocity_rhs_def dyn_mass_lhs_def dyn_mass_rhs_def np_diff_Inr slice_butlast_def
      ew_same ew_left1 ew_right1 length_time index_def)

theorem dynamics_shapes_witness:
  "length sample_y = y_len \<and> length sample_velocity = velocity_len \<and>
   length sample_mass = mass_len \<and> length sample_u = u_len \<and>
   shape (dyn_velocity_lhs sample_velocity) = Some 99 \<and>
   shape (dyn_velocity_rhs sample_u sample_mass) = Some 99"
proof -
  have a: "length sample_y = y_len" "length sample_velocity = velocity_len"
    "length sample_mass = mass_len" "length sample_u = u_len"
    by (simp_all add: sample_lengths var_lens)
  from dynamics_shapes[OF a] a show ?thesis by blast
qed

section \<open>Properties of the constrained-gradient example\<close>

lemma f_deriv: "(f has_real_derivative 4 * x ^ 3) (at x)"
proof -
  have "((\<lambda>x. x ^ 4) has_real_derivative 4 * x ^ 3) (at x)"
    by (auto intro!: derivative_eq_intros)
  then show ?thesis by (simp add: f_def[abs_def])
qed

text \<open>The constraint \<open>dfdx(x) == 1\<close> says \<open>4 * x ^ 3 = 1\<close>.\<close>

lemma f_deriv_one_iff: "(f has_real_derivative 1) (at x) \<longleftrightarrow> 4 * x ^ 3 = 1"
proof
  assume "(f has_real_derivative 1) (at x)"
  with f_deriv[of x] show "4 * x ^ 3 = 1" by (metis DERIV_unique)
next
  assume "4 * x ^ 3 = 1"
  with f_deriv[of x] show "(f has_real_derivative 1) (at x)" by simp
qed

lemma analytic_root: "analytic_solution = root 3 (1 / 4)"
  unfolding analytic_solution_def using root_powr_inverse[of 3 "1/4"] by simp

lemma analytic_cube: "analytic_solution ^ 3 = 1 / 4"
  unfolding analytic_root by (rule odd_real_root_pow) simp

lemma cube_unique: "(r::real) ^ 3 = 1 / 4 \<Longrightarrow> r = analytic_solution"
proof -
  assume "r ^ 3 = 1 / 4"
  then have "root 3 (r ^ 3) = root 3 (1 / 4)" by simp
  moreover have "root 3 (r ^ 3) = r" by (rule odd_real_root_power_cancel) simp
  ultimately show ?thesis by (simp add: analytic_root)
qed

text \<open>A rational whose cube is below (above) a quarter is below (above) the solution.\<close>

lemma below_analytic: "(a::real) ^ 3 < 1 / 4 \<Longrightarrow> a < analytic_solution"
proof -
  assume "a ^ 3 < 1 / 4"
  then have "root 3 (a ^ 3) < root 3 (1 / 4)"
    by (simp only: real_root_less_iff[of 3] zero_less_numeral)
  moreover have "root 3 (a ^ 3) = a" by (rule odd_real_root_power_cancel) simp
  ultimately show ?thesis by (simp only: analytic_root)
qed

lemma above_analytic: "1 / 4 < (a::real) ^ 3 \<Longrightarrow> analytic_solution < a"
proof -
  assume "1 / 4 < a ^ 3"
  then have "root 3 (1 / 4) < root 3 (a ^ 3)"
    by (simp only: real_root_less_iff[of 3] zero_less_numeral)
  moreover have "root 3 (a ^ 3) = a" by (rule odd_real_root_power_cancel) simp
  ultimately show ?thesis by (simp only: analytic_root)
qed

lemma analytic_rounded: "\<bar>analytic_solution - 629961 / 10 ^ 6\<bar> < 5 / 10 ^ 7"
proof -
  have "(6299605 / 10 ^ 7 :: real) ^ 3 < 1 / 4" by (simp add: power3_eq_cube)
  then have l: "6299605 / 10 ^ 7 < analytic_solution" by (rule below_analytic)
  have "1 / 4 < (629961 / 10 ^ 6 :: real) ^ 3" by (simp add: power3_eq_cube)
  then have u: "analytic_solution < 629961 / 10 ^ 6" by (rule above_analytic)
  from l u show ?thesis by simp
qed

lemma recorded_close: "\<bar>x_optimal_recorded - analytic_solution\<bar> < 1 / 10 ^ 6"
proof -
  have "(x_optimal_recorded - 1 / 10 ^ 6) ^ 3 < 1 / 4"
    unfolding x_optimal_recorded_def by (simp add: power3_eq_cube)
  then have l: "x_optimal_recorded - 1 / 10 ^ 6 < analytic_solution" by (rule below_analytic)
  have "1 / 4 < (x_optimal_recorded + 1 / 10 ^ 6) ^ 3"
    unfolding x_optimal_recorded_def by (simp add: power3_eq_cube)
  then have u: "analytic_solution < x_optimal_recorded + 1 / 10 ^ 6" by (rule above_analytic)
  from l u show ?thesis by linarith
qed

text \<open>
  C4. For the constrained-gradient example (\<open>f(x) = x ^ 4\<close>, subject to \<open>df/dx = 1\<close>) the
  constraint, which is \<open>4 * x ^ 3 = 1\<close>, has exactly one real solution, the closed form
  \<open>(1/4) ** (1/3)\<close>, which is \<open>0.629961\<close> to six decimals, and the solver output recorded in the notebook,
  \<open>0.6299605894866889\<close>, lies within \<open>1e-6\<close> of it.
\<close>

theorem gradient_solution_matches_closed_form:
  "(\<forall>r. (f has_real_derivative 1) (at r) \<longleftrightarrow> r = analytic_solution) \<and>
   (\<forall>r::real. 4 * r ^ 3 = 1 \<longleftrightarrow> r = analytic_solution) \<and>
   \<bar>analytic_solution - 629961 / 10 ^ 6\<bar> < 5 / 10 ^ 7 \<and>
   \<bar>x_optimal_recorded - analytic_solution\<bar> < 1 / 10 ^ 6"
proof -
  have "(f has_real_derivative 1) (at r) \<longleftrightarrow> r = analytic_solution" for r
  proof
    assume "(f has_real_derivative 1) (at r)"
    then have "4 * r ^ 3 = 1" by (simp add: f_deriv_one_iff)
    then have "r ^ 3 = 1 / 4" by simp
    then show "r = analytic_solution" by (rule cube_unique)
  next
    assume "r = analytic_solution"
    then show "(f has_real_derivative 1) (at r)"
      by (simp add: f_deriv_one_iff analytic_cube)
  qed
  then have "4 * r ^ 3 = 1 \<longleftrightarrow> r = analytic_solution" for r :: real
    by (simp add: f_deriv_one_iff)
  with \<open>\<And>r. (f has_real_derivative 1) (at r) \<longleftrightarrow> r = analytic_solution\<close>
    analytic_rounded recorded_close show ?thesis by blast
qed

theorem gradient_solution_matches_closed_form_witness:
  "(f has_real_derivative 1) (at ((1 / 4) powr (1 / 3))) \<and>
   \<bar>6299605894866889 / 10 ^ 16 - (1 / 4) powr (1 / 3)\<bar> < (1 / 10 ^ 6 :: real)"
  using gradient_solution_matches_closed_form
  by (simp add: analytic_solution_def x_optimal_recorded_def)

section \<open>Properties of the notebooks as scripts\<close>

lemma rocket_steps:
  "script_steps rocket_notebook =
    [ImportLibrary, ImportLibrary, DeclareVariable, DeclareVariable, DeclareVariable,
     DeclareVariable, StateConstraint, StateConstraint, StateConstraint, InvokeSolver,
     PrintResult, StateConstraint, StateConstraint, StateConstraint]"
  by (simp add: script_steps_def rocket_notebook_def step_of_calls_def)

lemma gradients_steps:
  "script_steps constraining_gradients_notebook =
    [ImportLibrary, ImportLibrary, DeclareVariable, StateConstraint, InvokeSolver,
     PrintResult, PrintResult]"
  by (simp add: script_steps_def constraining_gradients_notebook_def step_of_calls_def)

text \<open>
  C2, as stated, fails on the rocket notebook: its last code cell states constraints
  (three \<open>opti.constrain_derivative\<close> calls) after the solver invocation of the cell before,
  so the notebook is not a linear script in the five-step order.
\<close>

theorem rocket_constraint_after_solve:
  "constraint_after_solve (script_steps rocket_notebook) \<and> \<not> linear_script rocket_notebook"
  by (simp add: linear_script_def rocket_steps)

text \<open>
  C2, amended. The Constraining Gradients notebook is a linear script whose steps are, in
  this order, the two imports of the library, the declaration of the decision variable,
  the constraint, the solver invocation and two prints, with no constraint stated after
  the solve; its import of \<open>casadi\<close> is an auxiliary statement, not a step. The rocket
  notebook follows the same order through its first three code cells (two imports, four
  declarations, three constraint-stating calls, the solve, the print); its fourth and
  last code cell then consists of exactly three \<open>opti.constrain_derivative\<close> calls, stated
  after the solver invocation, and nothing else.
\<close>

theorem notebook_step_order:
  "script_steps constraining_gradients_notebook =
     [ImportLibrary, ImportLibrary, DeclareVariable, StateConstraint, InvokeSolver,
      PrintResult, PrintResult] \<and>
   linear_script constraining_gradients_notebook \<and>
   \<not> constraint_after_solve (script_steps constraining_gradients_notebook) \<and>
   Import ''casadi'' ''cas'' \<in> set (concat (code_cells constraining_gradients_notebook)) \<and>
   step_of (Import ''casadi'' ''cas'') = Auxiliary \<and>
   script_steps (take 6 rocket_notebook) =
     [ImportLibrary, ImportLibrary, DeclareVariable, DeclareVariable, DeclareVariable,
      DeclareVariable, StateConstraint, StateConstraint, StateConstraint, InvokeSolver,
      PrintResult] \<and>
   linear_script (take 6 rocket_notebook) \<and>
   length (code_cells (take 6 rocket_notebook)) = 3 \<and>
   code_cells (drop 6 rocket_notebook) =
     [ [Expr [''opti.constrain_derivative''], Expr [''opti.constrain_derivative''],
        Expr [''opti.constrain_derivative'']] ] \<and>
   code_cells rocket_notebook =
     code_cells (take 6 rocket_notebook) @ code_cells (drop 6 rocket_notebook) \<and>
   script_steps (drop 6 rocket_notebook) = [StateConstraint, StateConstraint, StateConstraint] \<and>
   script_steps rocket_notebook =
     script_steps (take 6 rocket_notebook) @ script_steps (drop 6 rocket_notebook)"
proof -
  have a: "script_steps (take 6 rocket_notebook) =
     [ImportLibrary, ImportLibrary, DeclareVariable, DeclareVariable, DeclareVariable,
      DeclareVariable, StateConstraint, StateConstraint, StateConstraint, InvokeSolver,
      PrintResult]"
    by (simp add: script_steps_def rocket_notebook_def step_of_calls_def)
  have b: "script_steps (drop 6 rocket_notebook) =
     [StateConstraint, StateConstraint, StateConstraint]"
    by (simp add: script_steps_def rocket_notebook_def step_of_calls_def)
  have c: "linear_script (take 6 rocket_notebook)"
    unfolding linear_script_def a by simp
  have d: "linear_script constraining_gradients_notebook"
    "\<not> constraint_after_solve (script_steps constraining_gradients_notebook)"
    unfolding linear_script_def gradients_steps by simp_all
  have e: "script_steps rocket_notebook =
     script_steps (take 6 rocket_notebook) @ script_steps (drop 6 rocket_notebook)"
    unfolding a b rocket_steps by simp
  have g: "Import ''casadi'' ''cas'' \<in> set (concat (code_cells constraining_gradients_notebook))"
    "step_of (Import ''casadi'' ''cas'') = Auxiliary"
    by (simp_all add: constraining_gradients_notebook_def)
  have h: "length (code_cells (take 6 rocket_notebook)) = 3"
    "code_cells (drop 6 rocket_notebook) =
     [ [Expr [''opti.constrain_derivative''], Expr [''opti.constrain_derivative''],
        Expr [''opti.constrain_derivative'']] ]"
    "code_cells rocket_notebook =
     code_cells (take 6 rocket_notebook) @ code_cells (drop 6 rocket_notebook)"
    by (simp_all add: rocket_notebook_def)
  from gradients_steps a b c d e g h show ?thesis by blast
qed

subsection \<open>Exceptions in a cell\<close>

lemma eval_calls_prefix:
  "list_all (\<lambda>c. b c = None) pre \<Longrightarrow> b x = Some e \<Longrightarrow>
   eval_calls b (pre @ x # post) = (pre, Raised e)"
  by (induction pre) auto

lemma eval_calls_append:
  "eval_calls b (xs @ ys) =
     (case eval_calls b xs of
        (t, Normal) \<Rightarrow> (case eval_calls b ys of (t', r) \<Rightarrow> (t @ t', r))
      | (t, Raised e) \<Rightarrow> (t, Raised e))"
  by (induction xs) (auto split: option.splits prod.splits outcome.splits)

lemma exec_no_try: "\<not> has_try s \<Longrightarrow> exec b s = eval_calls b (calls_of s)"
  by (cases s) auto

text \<open>Without a handler, running a block is making its calls one after the other.\<close>

lemma exec_block_no_try:
  "\<not> list_ex has_try ss \<Longrightarrow> exec_block b ss = eval_calls b (concat (map calls_of ss))"
proof (induction ss)
  case Nil
  then show ?case by simp
next
  case (Cons s ss)
  then have s: "exec b s = eval_calls b (calls_of s)"
    and ss: "exec_block b ss = eval_calls b (concat (map calls_of ss))"
    by (simp_all add: exec_no_try)
  show ?case
    by (simp add: s ss eval_calls_append split: prod.splits outcome.splits)
qed

lemma split_at_first:
  "x \<in> set cs \<Longrightarrow> cs = takeWhile (\<lambda>c. c \<noteq> x) cs @ x # tl (dropWhile (\<lambda>c. c \<noteq> x) cs)"
  by (induction cs) auto

lemma no_handlers:
  "\<not> handles_exceptions rocket_notebook" "\<not> handles_exceptions constraining_gradients_notebook"
  by (simp_all add: handles_exceptions_def rocket_notebook_def constraining_gradients_notebook_def)

lemma cell_no_try:
  assumes "\<not> handles_exceptions nb" "ss \<in> set (code_cells nb)"
  shows "\<not> list_ex has_try ss"
proof -
  have "\<forall>s\<in>set (concat (code_cells nb)). \<not> has_try s"
    using assms(1) by (simp add: handles_exceptions_def list_ex_iff)
  with assms(2) show ?thesis by (auto simp: list_ex_iff)
qed

text \<open>
  C6. Neither notebook defines any error handling around the solver invocation: no
  statement of either notebook is a \<open>try\<close>, and in the cell that calls \<open>opti.solve\<close>, once
  the calls before it have returned, an exception raised by \<open>opti.solve\<close> ends the cell
  with that exception; the calls after it (the \<open>print\<close>) are never made.
\<close>

theorem solver_exception_uncaught:
  assumes nb: "nb = rocket_notebook \<or> nb = constraining_gradients_notebook"
    and cell: "ss \<in> set (code_cells nb)"
    and solve: "''opti.solve'' \<in> set (concat (map calls_of ss))"
    and before: "list_all (\<lambda>c. b c = None)
        (takeWhile (\<lambda>c. c \<noteq> ''opti.solve'') (concat (map calls_of ss)))"
    and raises: "b ''opti.solve'' = Some e"
  shows "\<not> handles_exceptions nb \<and>
    exec_block b ss =
      (takeWhile (\<lambda>c. c \<noteq> ''opti.solve'') (concat (map calls_of ss)), Raised e)"
proof -
  let ?cs = "concat (map calls_of ss)"
  let ?pre = "takeWhile (\<lambda>c. c \<noteq> ''opti.solve'') ?cs"
  have h: "\<not> handles_exceptions nb" using nb no_handlers by auto
  then have "exec_block b ss = eval_calls b ?cs"
    using cell by (intro exec_block_no_try cell_no_try)
  also have "\<dots> =
      eval_calls b (?pre @ ''opti.solve'' # tl (dropWhile (\<lambda>c. c \<noteq> ''opti.solve'') ?cs))"
    using split_at_first[OF solve] by simp
  also have "\<dots> = (?pre, Raised e)"
    using before raises by (rule eval_calls_prefix)
  finally show ?thesis using h by simp
qed

theorem solver_exception_uncaught_witness:
  "code_cells rocket_notebook ! 2 \<in> set (code_cells rocket_notebook) \<and>
   solver_fails ''opti.solve'' = Some ''RuntimeError'' \<and>
   \<not> handles_exceptions rocket_notebook \<and>
   exec_block solver_fails (code_cells rocket_notebook ! 2) =
     ([''opti.subject_to'', ''opti.subject_to'', ''opti.minimize''], Raised ''RuntimeError'') \<and>
   \<not> handles_exceptions constraining_gradients_notebook \<and>
   exec_block solver_fails (code_cells constraining_gradients_notebook ! 2) =
     ([''dfdx'', ''opti.subject_to''], Raised ''RuntimeError'')"
proof -
  let ?ss = "code_cells rocket_notebook ! 2"
  let ?gs = "code_cells constraining_gradients_notebook ! 2"
  have ss: "?ss = [ Expr [''opti.subject_to''], Expr [''opti.subject_to''],
          Expr [''opti.minimize''], Assign ''sol'' [''opti.solve''],
          Expr [''sol.stats'', ''print''] ]"
    by (simp add: rocket_notebook_def)
  have a: "?ss \<in> set (code_cells rocket_notebook)"
    by (simp add: rocket_notebook_def)
  have b: "''opti.solve'' \<in> set (concat (map calls_of ?ss))"
    unfolding ss by simp
  have c: "list_all (\<lambda>c. solver_fails c = None)
        (takeWhile (\<lambda>c. c \<noteq> ''opti.solve'') (concat (map calls_of ?ss)))"
    unfolding ss by (simp add: solver_fails_def)
  have d: "solver_fails ''opti.solve'' = Some ''RuntimeError''"
    by (simp add: solver_fails_def)
  have e: "takeWhile (\<lambda>c. c \<noteq> ''opti.solve'') (concat (map calls_of ?ss))
     = [''opti.subject_to'', ''opti.subject_to'', ''opti.minimize'']"
    unfolding ss by simp
  have gs: "?gs = [ Expr [''dfdx'', ''opti.subject_to''], Assign ''sol'' [''opti.solve''],
          Expr [''sol'', ''print''] ]"
    by (simp add: constraining_gradients_notebook_def)
  have a': "?gs \<in> set (code_cells constraining_gradients_notebook)"
    by (simp add: constraining_gradients_notebook_def)
  have b': "''opti.solve'' \<in> set (concat (map calls_of ?gs))"
    unfolding gs by simp
  have c': "list_all (\<lambda>c. solver_fails c = None)
        (takeWhile (\<lambda>c. c \<noteq> ''opti.solve'') (concat (map calls_of ?gs)))"
    unfolding gs by (simp add: solver_fails_def)
  have e': "takeWhile (\<lambda>c. c \<noteq> ''opti.solve'') (concat (map calls_of ?gs))
     = [''dfdx'', ''opti.subject_to'']"
    unfolding gs by simp
  from solver_exception_uncaught[OF disjI1[OF refl] a b c d]
    solver_exception_uncaught[OF disjI2[OF refl] a' b' c' d] a d e e'
  show ?thesis
    by simp
qed

section \<open>Properties of the CI workflow\<close>

lemma build_commands:
  "job_commands build =
    [ ''python -m pip cache purge'',
      ''python -m pip install --upgrade pip'',
      ''python -m pip install --upgrade setuptools'',
      ''python -m pip install .[test]'',
      ''pytest aerosandbox'',
      ''python -m pip install .[full,test]'',
      ''py.test tutorial --nbval-lax --nbval-cell-timeout 120'' ]"
  by (simp add: job_commands_def build_def)

lemma build_kinds:
  "map command_kind (job_commands build) =
     [OtherCommand, Install, Install, InstallPackage, Test, InstallPackage, Test]"
  unfolding build_commands by (simp add: command_kind_def argv_def)

lemma build_tests:
  "test_invocations build =
     [ [''pytest'', ''aerosandbox''],
       [''py.test'', ''tutorial'', ''--nbval-lax'', ''--nbval-cell-timeout'', ''120''] ]"
  unfolding test_invocations_def build_commands by (simp add: command_kind_def argv_def)


subsection \<open>Failure of the job\<close>

lemma script_exit_nonzero: "script_exit ex cs \<noteq> 0 \<longleftrightarrow> (\<exists>c\<in>set cs. ex c \<noteq> 0)"
  by (induction cs) auto

lemma step_exit_nonzero: "step_exit ex s \<noteq> 0 \<longleftrightarrow> (\<exists>c\<in>set (step_units s). ex c \<noteq> 0)"
  by (simp add: step_exit_def step_units_def script_exit_nonzero split: option.splits)

text \<open>Steps without conditions and without \<open>continue-on-error\<close> fail the job as soon as
  one of them exits non-zero.\<close>

lemma run_steps_plain:
  "filter (\<lambda>s. if_cond s \<noteq> None \<or> continue_on_error s) ss = [] \<Longrightarrow>
   run_steps ev ex failed ss = (failed \<or> (\<exists>s\<in>set ss. step_exit ex s \<noteq> 0))"
proof (induction ss arbitrary: failed)
  case Nil
  then show ?case by simp
next
  case (Cons s ss)
  from Cons.prems have s: "if_cond s = None" "\<not> continue_on_error s"
    and rest: "filter (\<lambda>s. if_cond s \<noteq> None \<or> continue_on_error s) ss = []"
    by (auto split: if_splits)
  show ?case
    using Cons.IH[OF rest] s by auto
qed

lemma build_unhandled: "handled_steps build = []"
  by (simp add: handled_steps_def build_def)

text \<open>
  C7. The workflow's failure semantics are binary on exit status: no step of the job has a
  condition or \<open>continue-on-error\<close>, the only actions used are the checkout and the
  interpreter set-up (no retry wrapper), and no script line chains or guards its command
  inside the shell; so, whatever the platform's condition evaluation, the
  job fails exactly when some action or command of its steps exits non-zero; in
  particular a non-zero exit status of any install or test command fails the job.
\<close>

theorem job_fails_iff_command_fails:
  "handled_steps build = [] \<and>
   shell_operators build = [] \<and>
   map uses (steps build) =
     [Some ''actions/checkout@v4'', Some ''actions/setup-python@v5'', None, None, None] \<and>
   (run_job ev ex build = Failure \<longleftrightarrow> (\<exists>c\<in>set (job_units build). ex c \<noteq> 0))"
proof -
  have "run_steps ev ex False (steps build) = (\<exists>s\<in>set (steps build). step_exit ex s \<noteq> 0)"
    using build_unhandled run_steps_plain[of "steps build" ev ex False]
    by (simp add: handled_steps_def)
  also have "\<dots> = (\<exists>c\<in>set (job_units build). ex c \<noteq> 0)"
    by (auto simp: job_units_def step_exit_nonzero)
  finally have "run_job ev ex build = Failure \<longleftrightarrow> (\<exists>c\<in>set (job_units build). ex c \<noteq> 0)"
    by (simp add: run_job_def)
  moreover have "shell_operators build = []"
    unfolding shell_operators_def build_commands by (simp add: argv_def)
  moreover have "map uses (steps build) =
     [Some ''actions/checkout@v4'', Some ''actions/setup-python@v5'', None, None, None]"
    by (simp add: build_def)
  ultimately show ?thesis
    using build_unhandled by blast
qed

theorem job_fails_iff_command_fails_witness:
  "''pytest aerosandbox'' \<in> set (job_units build) \<and>
   library_tests_fail ''pytest aerosandbox'' = 1 \<and>
   run_job always_run library_tests_fail build = Failure \<and>
   run_job always_run (\<lambda>c. 0) build = Success"
proof -
  have a: "''pytest aerosandbox'' \<in> set (job_units build)"
    by (simp add: job_units_def build_def step_units_def)
  have b: "library_tests_fail ''pytest aerosandbox'' = 1"
    by (simp add: library_tests_fail_def)
  from a b have c: "\<exists>c\<in>set (job_units build). library_tests_fail c \<noteq> 0"
    by (intro bexI[of _ "''pytest aerosandbox''"]) simp_all
  have d: "run_job always_run library_tests_fail build = Failure"
    using job_fails_iff_command_fails[of always_run library_tests_fail] c by simp
  have "run_job always_run (\<lambda>c. 0) build \<noteq> Failure"
    using job_fails_iff_command_fails[of always_run "\<lambda>c. 0"] by simp
  then have e: "run_job always_run (\<lambda>c. 0) build = Success"
    by (cases "run_job always_run (\<lambda>c. 0) build") simp_all
  from a b d e show ?thesis by blast
qed

end
